theory Spec2Isabelle
  imports Main "HOL-Library.Word"
begin

section \<open>picap: capture source and packet decoder\<close>

text \<open>
  A shallow embedding of \<^verbatim>\<open>picap.go\<close>: the configuration \<^verbatim>\<open>Main\<close>, the constructor
  \<^verbatim>\<open>NewNetSource\<close>, the pull operation \<^verbatim>\<open>NetSource.Record\<close> and the decoder
  \<^verbatim>\<open>reifyPacket\<close>. The libraries the code calls (gopacket, pcap, net/http) are not part
  of the repository: a captured packet is modelled by what the decoder reads from it, and
  the library calls are parameters of the functions that make them.
\<close>

subsection \<open>Outcomes of a Go call\<close>

text \<open>
  A call either returns its results, panics (a method call on a nil interface value), or
  never returns (a receive on a channel that is empty and is never closed).
\<close>

datatype 'a outcome = Returned 'a | Panicked | Blocked

subsection \<open>The captured packet, as the decoder reads it\<close>

text \<open>
  \<^verbatim>\<open>gopacket.Packet\<close> is an interface. The decoder calls \<^verbatim>\<open>ErrorLayer\<close>, \<^verbatim>\<open>Metadata\<close>,
  \<^verbatim>\<open>NetworkLayer\<close>, \<^verbatim>\<open>TransportLayer\<close> and \<^verbatim>\<open>ApplicationLayer\<close> on it; each layer
  accessor may return nil (\<open>None\<close>). Layer type names and flow endpoints are kept as the
  strings their \<^verbatim>\<open>String()\<close> methods give. A nil packet is \<open>None :: gopacket option\<close>.
\<close>

record tcp_flags =
  FIN :: bool
  SYN :: bool
  RST :: bool
  PSH :: bool
  ACK :: bool
  URG :: bool
  ECE :: bool
  CWR :: bool
  NS :: bool

record network_layer =
  net_LayerType :: string
  net_Src :: string
  net_Dst :: string

text \<open>
  \<open>trans_TCP\<close> is the dynamic type of the transport layer value: \<open>Some flags\<close> when the
  type assertion of \<^verbatim>\<open>transLayer\<close> to a pointer to \<^verbatim>\<open>layers.TCP\<close> succeeds (with the nine
  flag fields of the decoded TCP header), \<open>None\<close> for every other transport layer.
\<close>

record transport_layer =
  trans_LayerType :: string
  trans_Src :: string
  trans_Dst :: string
  trans_TCP :: "tcp_flags option"

record application_layer =
  app_LayerType :: string
  app_Payload :: string

text \<open>
  \<open>ErrorLayer\<close>: \<open>None\<close> when the packet has no error layer, \<open>Some None\<close> for an error
  layer whose \<^verbatim>\<open>Error()\<close> is nil, \<open>Some (Some msg)\<close> for one that reports an error.
\<close>

record gopacket =
  ErrorLayer :: "string option option"
  MetadataLength :: int
  NetworkLayer :: "network_layer option"
  TransportLayer :: "transport_layer option"
  ApplicationLayer :: "application_layer option"

subsection \<open>The parsed HTTP request\<close>

text \<open>
  What \<^verbatim>\<open>reifyPacket\<close> reads of the \<^verbatim>\<open>*http.Request\<close> that \<^verbatim>\<open>http.ReadRequest\<close> returns.
  The header is a map from canonical header names to their values, and
  \<^verbatim>\<open>req.UserAgent()\<close> is \<^verbatim>\<open>Header.Get("User-Agent")\<close>: the first value, or the empty
  string when there is none.
\<close>

record http_request =
  req_Method :: string
  req_Host :: string
  req_Header :: "string \<rightharpoonup> string list"

definition req_UserAgent :: "http_request \<Rightarrow> string" where
  "req_UserAgent req =
     (case req_Header req ''User-Agent'' of
        None \<Rightarrow> ''''
      | Some [] \<Rightarrow> ''''
      | Some (v # _) \<Rightarrow> v)"

type_synonym read_request = "string \<Rightarrow> string + http_request"

subsection \<open>The decoded record\<close>

record http_info =
  Hostname :: string
  UserAgent :: string
  Method :: string

record Packet =
  Length :: int
  NetProto :: string
  NetSrc :: string
  NetDst :: string
  TransProto :: string
  TransSrc :: string
  TransDst :: string
  TCP :: tcp_flags
  AppProto :: string
  HTTP :: http_info

text \<open>The zero values Go gives \<^verbatim>\<open>&Packet{}\<close> and its two embedded structs.\<close>

definition zero_tcp :: tcp_flags where
  "zero_tcp = \<lparr>FIN = False, SYN = False, RST = False, PSH = False, ACK = False,
     URG = False, ECE = False, CWR = False, NS = False\<rparr>"

definition zero_http :: http_info where
  "zero_http = \<lparr>Hostname = '''', UserAgent = '''', Method = ''''\<rparr>"

definition zero_Packet :: Packet where
  "zero_Packet = \<lparr>Length = 0, NetProto = '''', NetSrc = '''', NetDst = '''',
     TransProto = '''', TransSrc = '''', TransDst = '''', TCP = zero_tcp,
     AppProto = '''', HTTP = zero_http\<rparr>"

subsection \<open>reifyPacket\<close>

text \<open>
  The three stages of \<^verbatim>\<open>reifyPacket\<close> after its early returns, each an update of \<^verbatim>\<open>pr\<close>
  in the order of the source.
\<close>

definition copy_tcp_flags :: "transport_layer \<Rightarrow> Packet \<Rightarrow> Packet" where
  "copy_tcp_flags transLayer pr =
     (case trans_TCP transLayer of
        Some tcpLayer \<Rightarrow>
          pr\<lparr>TCP := (TCP pr)\<lparr>FIN := FIN tcpLayer, SYN := SYN tcpLayer, RST := RST tcpLayer,
                 PSH := PSH tcpLayer, ACK := ACK tcpLayer, URG := URG tcpLayer,
                 ECE := ECE tcpLayer, CWR := CWR tcpLayer, NS := NS tcpLayer\<rparr>\<rparr>
      | None \<Rightarrow> pr)"

definition read_application :: "read_request \<Rightarrow> gopacket \<Rightarrow> Packet \<Rightarrow> Packet" where
  "read_application ReadRequest pkt pr =
     (case ApplicationLayer pkt of
        None \<Rightarrow> pr
      | Some appLayer \<Rightarrow>
          (let pr1 = pr\<lparr>AppProto := app_LayerType appLayer\<rparr> in
           case ReadRequest (app_Payload appLayer) of
             Inr req \<Rightarrow>
               pr1\<lparr>HTTP := (HTTP pr1)\<lparr>UserAgent := req_UserAgent req,
                       Method := req_Method req, Hostname := req_Host req\<rparr>\<rparr>
           | Inl err \<Rightarrow> pr1))"

text \<open>
  \<^verbatim>\<open>reifyPacket(pkt)\<close>. The first statement after the allocation calls a method of
  \<^verbatim>\<open>pkt\<close>, so a nil packet panics. The error is the message of
  \<^verbatim>\<open>errors.Wrap(errl.Error(), "decoding packet")\<close>; \<open>None\<close> is a nil error.
\<close>

definition reifyPacket ::
  "read_request \<Rightarrow> gopacket option \<Rightarrow> (Packet \<times> string option) outcome" where
  "reifyPacket ReadRequest p =
     (case p of
        None \<Rightarrow> Panicked
      | Some pkt \<Rightarrow>
          (let pr = zero_Packet in
           case ErrorLayer pkt of
             Some (Some e) \<Rightarrow> Returned (pr, Some (''decoding packet: '' @ e))
           | _ \<Rightarrow>
               (let pr = pr\<lparr>Length := MetadataLength pkt\<rparr> in
                case NetworkLayer pkt of
                  None \<Rightarrow> Returned (pr, None)
                | Some netLayer \<Rightarrow>
                    (let pr = pr\<lparr>NetProto := net_LayerType netLayer,
                                  NetSrc := net_Src netLayer, NetDst := net_Dst netLayer\<rparr> in
                     case TransportLayer pkt of
                       None \<Rightarrow> Returned (pr, None)
                     | Some transLayer \<Rightarrow>
                         (let pr = pr\<lparr>TransProto := trans_LayerType transLayer,
                                       TransSrc := trans_Src transLayer,
                                       TransDst := trans_Dst transLayer\<rparr>;
                              pr = copy_tcp_flags transLayer pr;
                              pr = read_application ReadRequest pkt pr
                          in Returned (pr, None))))))"

text \<open>The error a packet's error layer reports, if any.\<close>

definition decode_error :: "gopacket \<Rightarrow> string option" where
  "decode_error pkt = (case ErrorLayer pkt of Some (Some e) \<Rightarrow> Some e | _ \<Rightarrow> None)"

subsection \<open>The packet channel\<close>

text \<open>
  \<^verbatim>\<open>packets chan gopacket.Packet\<close>, seen from its only reader. \<open>queue\<close> holds the values the
  producer sends, in order; \<open>closed\<close> says whether the producer closes the channel after
  them. A receive takes the head of the queue; on an empty closed channel it yields the
  zero value of the element type (a nil packet) and leaves the channel as it is; on an
  empty channel that is never closed it does not return (\<open>None\<close>).
\<close>

record chan =
  queue :: "gopacket option list"
  closed :: bool

definition chan_recv :: "chan \<Rightarrow> (gopacket option \<times> chan) option" where
  "chan_recv c =
     (case queue c of
        v # vs \<Rightarrow> Some (v, c\<lparr>queue := vs\<rparr>)
      | [] \<Rightarrow> if closed c then Some (None, c) else None)"

subsection \<open>NetSource and Record\<close>

text \<open>
  \<^verbatim>\<open>num\<close> is a pointer to a \<^verbatim>\<open>uint64\<close> owned by the source: a 64-bit word in the state.
\<close>

record NetSource =
  num :: "64 word"
  debug :: bool
  packets :: chan

text \<open>
  The effects of one call of \<^verbatim>\<open>Record\<close>, in program order: the atomic add on the counter,
  the line given to \<^verbatim>\<open>log.Println\<close>, the receive from the channel with the value it
  got, and the call of \<^verbatim>\<open>reifyPacket\<close>.
\<close>

datatype effect =
    CounterAdd
  | LogPrintln string
  | ChanReceive "gopacket option"
  | CallReifyPacket

fun is_log :: "effect \<Rightarrow> bool" where
  "is_log (LogPrintln line) = True"
| "is_log e = False"

text \<open>Decimal digits of a natural number, as \<^verbatim>\<open>log.Println\<close> prints an unsigned integer.\<close>

fun decimal :: "nat \<Rightarrow> string" where
  "decimal n =
     (if n < 10 then [char_of (48 + n)]
      else decimal (n div 10) @ [char_of (48 + n mod 10)])"

declare decimal.simps [simp del]

record Record_call =
  result :: "(Packet \<times> string option) outcome"
  after :: NetSource
  effects :: "effect list"

text \<open>
  \<^verbatim>\<open>(n *NetSource) Record()\<close>, for a single caller. \<^verbatim>\<open>log.Println\<close> separates its operands
  by spaces (the logger's time prefix is left out). The counter is updated and the line
  logged before the receive, so both have happened when the receive blocks or the
  decoder panics.
\<close>

definition Record :: "read_request \<Rightarrow> NetSource \<Rightarrow> Record_call" where
  "Record ReadRequest n =
     (let n1 = n\<lparr>num := num n + 1\<rparr>;
          count = num n1;
          logged = (if debug n1 \<and> count mod 1000 = 20
                    then [LogPrintln (''Record has reported '' @ decimal (unat count) @
                                      '' packets'')]
                    else [])
      in case chan_recv (packets n1) of
           None \<Rightarrow> \<lparr>result = Blocked, after = n1, effects = CounterAdd # logged\<rparr>
         | Some (pkt, c) \<Rightarrow>
             \<lparr>result = reifyPacket ReadRequest pkt, after = n1\<lparr>packets := c\<rparr>,
              effects = CounterAdd # logged @ [ChanReceive pkt, CallReifyPacket]\<rparr>)"

text \<open>
  The caller's loop: \<open>k\<close> successive calls of \<^verbatim>\<open>Record\<close> on one source, with the results
  in call order and the source as the last call left it.
\<close>

fun Records ::
  "read_request \<Rightarrow> nat \<Rightarrow> NetSource \<Rightarrow> (Packet \<times> string option) outcome list \<times> NetSource" where
  "Records ReadRequest 0 n = ([], n)"
| "Records ReadRequest (Suc k) n =
     (let r = Record ReadRequest n;
          rest = Records ReadRequest k (after r)
      in (result r # fst rest, snd rest))"

subsection \<open>Main and NewNetSource\<close>

record Main =
  Iface :: string
  Filename :: string
  Snaplen :: "32 word"
  Promisc :: bool
  Timeout :: "64 word"
  Concurrency :: int
  PilosaHosts :: "string list"
  Filter :: string
  Index :: string
  BindAddr :: string
  BufSize :: int
  MappingDir :: string
  Debug :: bool
  Translator :: string

text \<open>\<^verbatim>\<open>NewMain()\<close>: the defaults; \<^verbatim>\<open>time.Millisecond\<close> is 1000000 nanoseconds.\<close>

definition NewMain :: Main where
  "NewMain = \<lparr>Iface = ''en0'', Filename = '''', Snaplen = 1500, Promisc = False,
     Timeout = 1000000, Concurrency = 1, PilosaHosts = [''localhost:10101''],
     Filter = '''', Index = ''net'', BindAddr = ''localhost:11000'', BufSize = 100000,
     MappingDir = '''', Debug = False, Translator = ''mem''\<rparr>"

text \<open>
  The pcap and gopacket calls of \<^verbatim>\<open>NewNetSource\<close>, as parameters. \<open>'h\<close> is the capture
  handle. A call that can fail returns \<open>Inl\<close> with the error's message.
  \<open>SetBPFFilter\<close> returns the handle with the filter installed, and \<open>Packets\<close> is the
  channel of \<^verbatim>\<open>gopacket.NewPacketSource(h, h.LinkType()).Packets()\<close>.
\<close>

record 'h pcap_lib =
  OpenOffline :: "string \<Rightarrow> string + 'h"
  OpenLive :: "string \<Rightarrow> 32 word \<Rightarrow> bool \<Rightarrow> 64 word \<Rightarrow> string + 'h"
  SetBPFFilter :: "'h \<Rightarrow> string \<Rightarrow> string + 'h"
  Packets :: "'h \<Rightarrow> chan"

text \<open>The library calls a run of \<^verbatim>\<open>NewNetSource\<close> makes, in program order.\<close>

datatype pcap_call =
    CallOpenOffline string
  | CallOpenLive string "32 word" bool "64 word"
  | CallSetBPFFilter string
  | CallPackets

text \<open>Lines 98 to 102: which open call is made, and what it returns.\<close>

definition open_capture :: "'h pcap_lib \<Rightarrow> Main \<Rightarrow> pcap_call \<times> (string + 'h)" where
  "open_capture lib m =
     (if Filename m \<noteq> ''''
      then (CallOpenOffline (Filename m), OpenOffline lib (Filename m))
      else (CallOpenLive (Iface m) (Snaplen m) (Promisc m) (Timeout m),
            OpenLive lib (Iface m) (Snaplen m) (Promisc m) (Timeout m)))"

text \<open>
  \<^verbatim>\<open>(m *Main) NewNetSource()\<close>: the source or the error's message, and the library calls
  made. The new source has the counter at 0 and \<^verbatim>\<open>debug\<close> at its zero value.
\<close>

definition NewNetSource :: "'h pcap_lib \<Rightarrow> Main \<Rightarrow> (string + NetSource) \<times> pcap_call list" where
  "NewNetSource lib m =
     (let (opening, opened) = open_capture lib m in
      case opened of
        Inl err \<Rightarrow> (Inl (''open error: '' @ err), [opening])
      | Inr h \<Rightarrow>
          (case SetBPFFilter lib h (Filter m) of
             Inl err \<Rightarrow>
               (Inl (''error setting bpf filter: '' @ err),
                [opening, CallSetBPFFilter (Filter m)])
           | Inr h' \<Rightarrow>
               (Inr \<lparr>num = 0, debug = False, packets = Packets lib h'\<rparr>,
                [opening, CallSetBPFFilter (Filter m), CallPackets])))"

subsection \<open>Example inputs\<close>

text \<open>
  Packets and library behaviour used to run the definitions on concrete inputs. The
  packets: a TCP segment with SYN and ACK set; a UDP datagram; an HTTP GET request over
  TCP; a TCP segment with a binary payload; an ARP frame (no network layer) and the same
  frame with trailing bytes that spell an HTTP request; an ICMP echo (a network layer, no
  transport layer) whose data spells an HTTP request; a TCP segment without a network
  layer; a TCP segment whose decoding failed after the transport layer, and one that
  also carries an application layer.
\<close>

definition crlf :: string where
  "crlf = [CHR 0x0D, CHR 0x0A]"

definition get_request_text :: string where
  "get_request_text =
     ''GET /index.html HTTP/1.1'' @ crlf @ ''Host: example.com'' @ crlf @
     ''User-Agent: curl/7.58.0'' @ crlf @ crlf"

text \<open>
  A stand-in for \<^verbatim>\<open>http.ReadRequest\<close> that accepts exactly \<open>get_request_text\<close> and rejects
  every other payload.
\<close>

definition example_ReadRequest :: read_request where
  "example_ReadRequest b =
     (if b = get_request_text
      then Inr \<lparr>req_Method = ''GET'', req_Host = ''example.com'',
                req_Header = [''User-Agent'' \<mapsto> [''curl/7.58.0'']]\<rparr>
      else Inl ''malformed HTTP request'')"

definition ipv4_layer :: network_layer where
  "ipv4_layer = \<lparr>net_LayerType = ''IPv4'', net_Src = ''10.0.0.1'', net_Dst = ''10.0.0.2''\<rparr>"

definition syn_ack_flags :: tcp_flags where
  "syn_ack_flags = \<lparr>FIN = False, SYN = True, RST = False, PSH = False, ACK = True,
     URG = False, ECE = False, CWR = False, NS = False\<rparr>"

definition psh_ack_flags :: tcp_flags where
  "psh_ack_flags = \<lparr>FIN = False, SYN = False, RST = False, PSH = True, ACK = True,
     URG = False, ECE = False, CWR = False, NS = False\<rparr>"

definition syn_ack_segment :: transport_layer where
  "syn_ack_segment = \<lparr>trans_LayerType = ''TCP'', trans_Src = ''80'', trans_Dst = ''51000'',
     trans_TCP = Some syn_ack_flags\<rparr>"

definition data_segment :: transport_layer where
  "data_segment = \<lparr>trans_LayerType = ''TCP'', trans_Src = ''51000'', trans_Dst = ''80'',
     trans_TCP = Some psh_ack_flags\<rparr>"

definition udp_datagram :: transport_layer where
  "udp_datagram = \<lparr>trans_LayerType = ''UDP'', trans_Src = ''5353'', trans_Dst = ''5353'',
     trans_TCP = None\<rparr>"

definition syn_ack_packet :: gopacket where
  "syn_ack_packet = \<lparr>ErrorLayer = None, MetadataLength = 60,
     NetworkLayer = Some ipv4_layer, TransportLayer = Some syn_ack_segment,
     ApplicationLayer = None\<rparr>"

definition udp_packet :: gopacket where
  "udp_packet = \<lparr>ErrorLayer = None, MetadataLength = 90,
     NetworkLayer = Some ipv4_layer, TransportLayer = Some udp_datagram,
     ApplicationLayer = Some \<lparr>app_LayerType = ''Payload'', app_Payload = [CHR 0x00, CHR 0x01]\<rparr>\<rparr>"

definition http_get_packet :: gopacket where
  "http_get_packet = \<lparr>ErrorLayer = None, MetadataLength = 140,
     NetworkLayer = Some ipv4_layer, TransportLayer = Some data_segment,
     ApplicationLayer = Some \<lparr>app_LayerType = ''Payload'', app_Payload = get_request_text\<rparr>\<rparr>"

definition binary_packet :: gopacket where
  "binary_packet = \<lparr>ErrorLayer = None, MetadataLength = 70,
     NetworkLayer = Some ipv4_layer, TransportLayer = Some data_segment,
     ApplicationLayer = Some \<lparr>app_LayerType = ''Payload'',
       app_Payload = [CHR 0x16, CHR 0x03, CHR 0x01, CHR 0x00]\<rparr>\<rparr>"

definition arp_packet :: gopacket where
  "arp_packet = \<lparr>ErrorLayer = None, MetadataLength = 42,
     NetworkLayer = None, TransportLayer = None, ApplicationLayer = None\<rparr>"

definition arp_padded_packet :: gopacket where
  "arp_padded_packet = \<lparr>ErrorLayer = None, MetadataLength = 120,
     NetworkLayer = None, TransportLayer = None,
     ApplicationLayer = Some \<lparr>app_LayerType = ''Payload'', app_Payload = get_request_text\<rparr>\<rparr>"

definition icmp_echo_packet :: gopacket where
  "icmp_echo_packet = \<lparr>ErrorLayer = None, MetadataLength = 98,
     NetworkLayer = Some ipv4_layer, TransportLayer = None,
     ApplicationLayer = Some \<lparr>app_LayerType = ''Payload'', app_Payload = get_request_text\<rparr>\<rparr>"

definition tcp_only_packet :: gopacket where
  "tcp_only_packet = \<lparr>ErrorLayer = None, MetadataLength = 40,
     NetworkLayer = None, TransportLayer = Some syn_ack_segment, ApplicationLayer = None\<rparr>"

definition malformed_packet :: gopacket where
  "malformed_packet = \<lparr>ErrorLayer = Some (Some ''Invalid TLS record''), MetadataLength = 140,
     NetworkLayer = Some ipv4_layer, TransportLayer = Some syn_ack_segment,
     ApplicationLayer = None\<rparr>"

definition malformed_http_packet :: gopacket where
  "malformed_http_packet = \<lparr>ErrorLayer = Some (Some ''decoder panic''), MetadataLength = 140,
     NetworkLayer = Some ipv4_layer, TransportLayer = Some data_segment,
     ApplicationLayer = Some \<lparr>app_LayerType = ''Payload'', app_Payload = get_request_text\<rparr>\<rparr>"

text \<open>
  A stand-in for the pcap library, with the file name as the handle: one capture file
  with two packets, whose channel is closed after them, one interface, and a filter
  compiler that accepts two expressions.
\<close>

definition example_pcap :: "string pcap_lib" where
  "example_pcap =
     \<lparr>OpenOffline = (\<lambda>f. if f = ''capture.pcap'' then Inr f
                          else Inl (f @ '': No such file or directory'')),
      OpenLive = (\<lambda>i s p t. if i = ''en0'' then Inr i
                             else Inl (i @ '': No such device exists'')),
      SetBPFFilter = (\<lambda>h e. if e = '''' \<or> e = ''tcp port 80'' then Inr h
                             else Inl ''syntax error''),
      Packets = (\<lambda>h. if h = ''capture.pcap''
                      then \<lparr>queue = [Some http_get_packet, Some udp_packet], closed = True\<rparr>
                      else \<lparr>queue = [], closed = False\<rparr>)\<rparr>"

text \<open>
  Sources for the examples: a source over a capture of two packets, the first of them
  malformed; a source over a capture of one packet; and the latter with \<^verbatim>\<open>debug\<close> set (as
  \<^verbatim>\<open>Run\<close> does from \<^verbatim>\<open>m.Debug\<close>) and the counter at a given value.
\<close>

definition two_packet_source :: NetSource where
  "two_packet_source = \<lparr>num = 0, debug = False,
     packets = \<lparr>queue = [Some malformed_packet, Some udp_packet], closed = True\<rparr>\<rparr>"

definition one_packet_source :: NetSource where
  "one_packet_source = \<lparr>num = 0, debug = False,
     packets = \<lparr>queue = [Some udp_packet], closed = True\<rparr>\<rparr>"

definition debug_source :: "64 word \<Rightarrow> NetSource" where
  "debug_source c = \<lparr>num = c, debug = True,
     packets = \<lparr>queue = [Some udp_packet], closed = True\<rparr>\<rparr>"

section \<open>Properties\<close>

subsection \<open>The decoder, branch by branch\<close>

lemma reifyPacket_error:
  "decode_error pkt = Some e \<Longrightarrow>
   reifyPacket rr (Some pkt) = Returned (zero_Packet, Some (''decoding packet: '' @ e))"
  by (auto simp: reifyPacket_def decode_error_def split: option.splits)

lemma reifyPacket_no_network:
  "decode_error pkt = None \<Longrightarrow> NetworkLayer pkt = None \<Longrightarrow>
   reifyPacket rr (Some pkt) = Returned (zero_Packet\<lparr>Length := MetadataLength pkt\<rparr>, None)"
  by (auto simp: reifyPacket_def decode_error_def split: option.splits)

lemma reifyPacket_no_transport:
  "decode_error pkt = None \<Longrightarrow> NetworkLayer pkt = Some n \<Longrightarrow> TransportLayer pkt = None \<Longrightarrow>
   reifyPacket rr (Some pkt) =
     Returned (zero_Packet\<lparr>Length := MetadataLength pkt, NetProto := net_LayerType n,
                 NetSrc := net_Src n, NetDst := net_Dst n\<rparr>, None)"
  by (auto simp: reifyPacket_def decode_error_def split: option.splits)

lemma reifyPacket_transport:
  "decode_error pkt = None \<Longrightarrow> NetworkLayer pkt = Some n \<Longrightarrow> TransportLayer pkt = Some t \<Longrightarrow>
   reifyPacket rr (Some pkt) =
     Returned (read_application rr pkt (copy_tcp_flags t
       (zero_Packet\<lparr>Length := MetadataLength pkt, NetProto := net_LayerType n,
          NetSrc := net_Src n, NetDst := net_Dst n, TransProto := trans_LayerType t,
          TransSrc := trans_Src t, TransDst := trans_Dst t\<rparr>)), None)"
  by (auto simp: reifyPacket_def decode_error_def Let_def split: option.splits)

text \<open>Copying the nine flags one by one into the zero value gives the layer's flags.\<close>

lemma tcp_flags_copy:
  "zero_tcp\<lparr>FIN := FIN f, SYN := SYN f, RST := RST f, PSH := PSH f, ACK := ACK f,
     URG := URG f, ECE := ECE f, CWR := CWR f, NS := NS f\<rparr> = (f::tcp_flags)"
  by (cases f) (simp add: zero_tcp_def)

lemma read_application_keeps:
  "Length (read_application rr pkt pr) = Length pr"
  "TransProto (read_application rr pkt pr) = TransProto pr"
  "TCP (read_application rr pkt pr) = TCP pr"
  by (simp_all add: read_application_def Let_def split: option.splits sum.splits)

lemma copy_tcp_flags_keeps:
  "Length (copy_tcp_flags t pr) = Length pr"
  "TransProto (copy_tcp_flags t pr) = TransProto pr"
  "AppProto (copy_tcp_flags t pr) = AppProto pr"
  "HTTP (copy_tcp_flags t pr) = HTTP pr"
  by (simp_all add: copy_tcp_flags_def split: option.splits)

lemma copy_tcp_flags_TCP:
  "TCP pr = zero_tcp \<Longrightarrow>
   TCP (copy_tcp_flags t pr) = (case trans_TCP t of Some f \<Rightarrow> f | None \<Rightarrow> zero_tcp)"
  by (simp add: copy_tcp_flags_def tcp_flags_copy split: option.splits)

lemma read_application_HTTP:
  "HTTP pr = zero_http \<Longrightarrow>
   HTTP (read_application rr pkt pr) =
     (case ApplicationLayer pkt of
        None \<Rightarrow> zero_http
      | Some a \<Rightarrow>
          (case rr (app_Payload a) of
             Inr req \<Rightarrow> \<lparr>Hostname = req_Host req, UserAgent = req_UserAgent req,
                          Method = req_Method req\<rparr>
           | Inl e \<Rightarrow> zero_http))"
  by (simp add: read_application_def zero_http_def Let_def split: option.splits sum.splits)

lemma read_application_AppProto:
  "AppProto pr = '''' \<Longrightarrow>
   AppProto (read_application rr pkt pr) =
     (case ApplicationLayer pkt of None \<Rightarrow> '''' | Some a \<Rightarrow> app_LayerType a)"
  by (simp add: read_application_def Let_def split: option.splits sum.splits)

text \<open>
  A non-nil packet is always decoded to a record, and the error returned with it is the
  wrapped error of the error layer, or nil.
\<close>

lemma reifyPacket_returns:
  "\<exists>pr. reifyPacket rr (Some pkt) =
     Returned (pr, map_option (\<lambda>e. ''decoding packet: '' @ e) (decode_error pkt))"
  by (auto simp: reifyPacket_def decode_error_def Let_def split: option.splits)

lemma reifyPacket_Length:
  "decode_error pkt = None \<Longrightarrow> reifyPacket rr (Some pkt) = Returned (pr, err) \<Longrightarrow>
   Length pr = MetadataLength pkt"
  by (auto simp: reifyPacket_def decode_error_def Let_def read_application_keeps
      copy_tcp_flags_keeps split: option.splits)

lemma example_decode_errors:
  "decode_error malformed_packet = Some ''Invalid TLS record''"
  "decode_error malformed_http_packet = Some ''decoder panic''"
  "decode_error arp_packet = None"
  "decode_error arp_padded_packet = None"
  "decode_error icmp_echo_packet = None"
  "decode_error tcp_only_packet = None"
  "decode_error syn_ack_packet = None"
  "decode_error udp_packet = None"
  "decode_error http_get_packet = None"
  "decode_error binary_packet = None"
  by (simp_all add: decode_error_def malformed_packet_def malformed_http_packet_def
      arp_packet_def arp_padded_packet_def icmp_echo_packet_def tcp_only_packet_def
      syn_ack_packet_def udp_packet_def http_get_packet_def binary_packet_def)

subsection \<open>C1: when Length is set\<close>

text \<open>
  C1 as stated fails: the error layer is checked before \<^verbatim>\<open>pr.Length\<close> is assigned, so
  the record returned with a decode error has \<open>Length = 0\<close> whatever the packet's
  length. Here the packet has length 140.
\<close>

theorem reifyPacket_Length_unset_on_error_counterexample:
  "reifyPacket example_ReadRequest (Some malformed_packet) =
     Returned (zero_Packet, Some ''decoding packet: Invalid TLS record'') \<and>
   Length zero_Packet \<noteq> MetadataLength malformed_packet"
  using reifyPacket_error [OF example_decode_errors(1), of example_ReadRequest]
  by (simp add: malformed_packet_def zero_Packet_def)

text \<open>
  C1, amended. \<^verbatim>\<open>reifyPacket\<close> checks the error layer first. When it reports an error,
  the record returned with the wrapped error is the zero record, \<open>Length\<close> included. When
  it reports none, \<open>Length\<close> is set from the packet metadata whatever layers follow and no
  error is returned; if moreover the packet has no network layer, the record has
  \<open>Length\<close> set and nothing else.
\<close>

theorem reifyPacket_Length_after_error_check:
  "(\<forall>e. decode_error pkt = Some e \<longrightarrow>
      reifyPacket rr (Some pkt) = Returned (zero_Packet, Some (''decoding packet: '' @ e))) \<and>
   (decode_error pkt = None \<longrightarrow>
      (\<exists>pr. reifyPacket rr (Some pkt) = Returned (pr, None) \<and>
            Length pr = MetadataLength pkt)) \<and>
   (decode_error pkt = None \<and> NetworkLayer pkt = None \<longrightarrow>
      reifyPacket rr (Some pkt) =
        Returned (zero_Packet\<lparr>Length := MetadataLength pkt\<rparr>, None))"
proof (intro conjI allI impI)
  fix e assume "decode_error pkt = Some e"
  then show "reifyPacket rr (Some pkt) = Returned (zero_Packet, Some (''decoding packet: '' @ e))"
    by (rule reifyPacket_error)
next
  assume ok: "decode_error pkt = None"
  from reifyPacket_returns [of rr pkt] obtain pr
    where r: "reifyPacket rr (Some pkt) = Returned (pr, None)"
    by (auto simp: ok)
  with ok have "Length pr = MetadataLength pkt"
    by (rule reifyPacket_Length)
  with r show "\<exists>pr. reifyPacket rr (Some pkt) = Returned (pr, None) \<and>
      Length pr = MetadataLength pkt"
    by blast
next
  assume "decode_error pkt = None \<and> NetworkLayer pkt = None"
  then show "reifyPacket rr (Some pkt) =
      Returned (zero_Packet\<lparr>Length := MetadataLength pkt\<rparr>, None)"
    by (simp add: reifyPacket_no_network)
qed

theorem reifyPacket_Length_after_error_check_witness:
  "decode_error malformed_packet = Some ''Invalid TLS record'' \<and>
   reifyPacket example_ReadRequest (Some malformed_packet) =
     Returned (zero_Packet, Some ''decoding packet: Invalid TLS record'') \<and>
   decode_error arp_packet = None \<and> NetworkLayer arp_packet = None \<and>
   reifyPacket example_ReadRequest (Some arp_packet) =
     Returned (zero_Packet\<lparr>Length := 42\<rparr>, None) \<and>
   decode_error http_get_packet = None \<and>
   (\<exists>pr. reifyPacket example_ReadRequest (Some http_get_packet) = Returned (pr, None) \<and>
         Length pr = 140)"
  using reifyPacket_Length_after_error_check [of malformed_packet example_ReadRequest]
    reifyPacket_Length_after_error_check [of arp_packet example_ReadRequest]
    reifyPacket_Length_after_error_check [of http_get_packet example_ReadRequest]
  by (simp add: example_decode_errors)
    (simp add: arp_packet_def http_get_packet_def)

subsection \<open>C4: the TCP flags\<close>

text \<open>
  C4 as stated fails. The first packet has a TCP transport layer with SYN and ACK set
  and an error layer that reports an error: the record returned is the zero record, with
  all nine flags false. The second has the same transport layer and no network layer:
  \<^verbatim>\<open>reifyPacket\<close> returns before it looks at the transport layer, and the flags are false
  again.
\<close>

theorem reifyPacket_TCP_flags_counterexample:
  "TransportLayer malformed_packet = Some syn_ack_segment \<and>
   trans_TCP syn_ack_segment = Some syn_ack_flags \<and>
   reifyPacket example_ReadRequest (Some malformed_packet) =
     Returned (zero_Packet, Some ''decoding packet: Invalid TLS record'') \<and>
   TCP zero_Packet \<noteq> syn_ack_flags \<and>
   TransportLayer tcp_only_packet = Some syn_ack_segment \<and>
   reifyPacket example_ReadRequest (Some tcp_only_packet) =
     Returned (zero_Packet\<lparr>Length := 40\<rparr>, None) \<and>
   TCP (zero_Packet\<lparr>Length := 40\<rparr>) \<noteq> syn_ack_flags"
  using reifyPacket_error [OF example_decode_errors(1), of example_ReadRequest]
    reifyPacket_no_network [OF example_decode_errors(6), of example_ReadRequest]
  by (simp add: malformed_packet_def tcp_only_packet_def syn_ack_segment_def
      syn_ack_flags_def zero_Packet_def zero_tcp_def)

text \<open>
  C4, amended. For every packet whose error layer reports no error and that has a
  network layer and a transport layer, the record has \<open>TransProto\<close> set, and its \<open>TCP\<close>
  struct holds the nine flags of the TCP layer when the transport layer is a TCP layer,
  and is left at its zero value (all nine flags false, the only way the struct can say
  that there is no TCP layer) when it is any other transport layer.
\<close>

theorem reifyPacket_TCP_flags:
  assumes "decode_error pkt = None"
    and "NetworkLayer pkt = Some n"
    and "TransportLayer pkt = Some t"
  shows "\<exists>pr. reifyPacket rr (Some pkt) = Returned (pr, None) \<and>
           TransProto pr = trans_LayerType t \<and>
           TCP pr = (case trans_TCP t of Some flags \<Rightarrow> flags | None \<Rightarrow> zero_tcp)"
proof -
  let ?pr0 = "zero_Packet\<lparr>Length := MetadataLength pkt, NetProto := net_LayerType n,
      NetSrc := net_Src n, NetDst := net_Dst n, TransProto := trans_LayerType t,
      TransSrc := trans_Src t, TransDst := trans_Dst t\<rparr>"
  let ?pr = "read_application rr pkt (copy_tcp_flags t ?pr0)"
  have r: "reifyPacket rr (Some pkt) = Returned (?pr, None)"
    using assms by (rule reifyPacket_transport)
  have tcp: "TCP ?pr = (case trans_TCP t of Some flags \<Rightarrow> flags | None \<Rightarrow> zero_tcp)"
    by (simp add: read_application_keeps copy_tcp_flags_TCP zero_Packet_def)
  have "TransProto ?pr = trans_LayerType t"
    by (simp add: read_application_keeps copy_tcp_flags_keeps)
  with r tcp show ?thesis
    by blast
qed

text \<open>The SYN/ACK segment and the UDP datagram of the specification's examples.\<close>

theorem reifyPacket_TCP_flags_witness:
  "(\<exists>pr. reifyPacket example_ReadRequest (Some syn_ack_packet) = Returned (pr, None) \<and>
         TransProto pr = ''TCP'' \<and>
         TCP pr = \<lparr>FIN = False, SYN = True, RST = False, PSH = False, ACK = True,
                   URG = False, ECE = False, CWR = False, NS = False\<rparr>) \<and>
   (\<exists>pr. reifyPacket example_ReadRequest (Some udp_packet) = Returned (pr, None) \<and>
         TransProto pr = ''UDP'' \<and> TCP pr = zero_tcp)"
proof -
  have a: "decode_error syn_ack_packet = None"
    "NetworkLayer syn_ack_packet = Some ipv4_layer"
    "TransportLayer syn_ack_packet = Some syn_ack_segment"
    by (simp_all add: example_decode_errors) (simp_all add: syn_ack_packet_def)
  have b: "decode_error udp_packet = None"
    "NetworkLayer udp_packet = Some ipv4_layer"
    "TransportLayer udp_packet = Some udp_datagram"
    by (simp_all add: example_decode_errors) (simp_all add: udp_packet_def)
  show ?thesis
    using reifyPacket_TCP_flags [OF a, of example_ReadRequest]
      reifyPacket_TCP_flags [OF b, of example_ReadRequest]
    by (simp add: syn_ack_segment_def udp_datagram_def syn_ack_flags_def)
qed

subsection \<open>C5: a failed HTTP parse is silent\<close>

text \<open>
  C5. For every packet with an application layer whose payload \<^verbatim>\<open>http.ReadRequest\<close>
  rejects, \<^verbatim>\<open>reifyPacket\<close> returns a record whose \<open>HTTP\<close> struct is at its zero value, and
  the error it returns is the error layer's wrapped error or nil: the parser's error
  never reaches the caller.
\<close>

theorem reifyPacket_HTTP_failure_silent:
  assumes "ApplicationLayer pkt = Some a"
    and "rr (app_Payload a) = Inl perr"
  shows "\<exists>pr. reifyPacket rr (Some pkt) =
             Returned (pr, map_option (\<lambda>e. ''decoding packet: '' @ e) (decode_error pkt)) \<and>
           HTTP pr = zero_http"
proof -
  obtain pr where r: "reifyPacket rr (Some pkt) =
      Returned (pr, map_option (\<lambda>e. ''decoding packet: '' @ e) (decode_error pkt))"
    using reifyPacket_returns by blast
  have z: "HTTP zero_Packet = zero_http"
    by (simp add: zero_Packet_def)
  have "HTTP pr = zero_http"
    using r assms z
    by (auto simp: reifyPacket_def Let_def read_application_HTTP copy_tcp_flags_keeps
        split: option.splits)
  with r show ?thesis
    by blast
qed

theorem reifyPacket_HTTP_failure_silent_witness:
  "ApplicationLayer binary_packet =
     Some \<lparr>app_LayerType = ''Payload'', app_Payload = [CHR 0x16, CHR 0x03, CHR 0x01, CHR 0x00]\<rparr> \<and>
   example_ReadRequest [CHR 0x16, CHR 0x03, CHR 0x01, CHR 0x00] = Inl ''malformed HTTP request'' \<and>
   (\<exists>pr. reifyPacket example_ReadRequest (Some binary_packet) = Returned (pr, None) \<and>
         HTTP pr = zero_http)"
proof -
  have a: "ApplicationLayer binary_packet =
     Some \<lparr>app_LayerType = ''Payload'', app_Payload = [CHR 0x16, CHR 0x03, CHR 0x01, CHR 0x00]\<rparr>"
    by (simp add: binary_packet_def)
  have b: "example_ReadRequest (app_Payload \<lparr>app_LayerType = ''Payload'',
      app_Payload = [CHR 0x16, CHR 0x03, CHR 0x01, CHR 0x00]\<rparr>) = Inl ''malformed HTTP request''"
    by (simp add: example_ReadRequest_def get_request_text_def)
  show ?thesis
    using reifyPacket_HTTP_failure_silent [of binary_packet _ example_ReadRequest, OF a b] a b
    by (simp add: example_decode_errors)
qed

subsection \<open>C6: a parsed HTTP request\<close>

lemma example_ReadRequest_get:
  "example_ReadRequest get_request_text =
     Inr \<lparr>req_Method = ''GET'', req_Host = ''example.com'',
          req_Header = [''User-Agent'' \<mapsto> [''curl/7.58.0'']]\<rparr>"
  by (simp add: example_ReadRequest_def)

text \<open>
  C6 as stated fails. Each of the three packets has an application layer whose payload
  parses as a GET request. The ICMP echo has no transport layer: the record has neither
  \<open>AppProto\<close> nor \<open>HTTP\<close> set. The padded ARP frame has no network layer: only \<open>Length\<close>
  is set. The third packet's error layer reports an error: the record is the zero record
  and an error is returned.
\<close>

theorem reifyPacket_HTTP_needs_transport_counterexample:
  "ApplicationLayer icmp_echo_packet =
     Some \<lparr>app_LayerType = ''Payload'', app_Payload = get_request_text\<rparr> \<and>
   example_ReadRequest get_request_text =
     Inr \<lparr>req_Method = ''GET'', req_Host = ''example.com'',
          req_Header = [''User-Agent'' \<mapsto> [''curl/7.58.0'']]\<rparr> \<and>
   reifyPacket example_ReadRequest (Some icmp_echo_packet) =
     Returned (zero_Packet\<lparr>Length := 98, NetProto := ''IPv4'', NetSrc := ''10.0.0.1'',
                 NetDst := ''10.0.0.2''\<rparr>, None) \<and>
   AppProto (zero_Packet\<lparr>Length := 98, NetProto := ''IPv4'', NetSrc := ''10.0.0.1'',
                 NetDst := ''10.0.0.2''\<rparr>) = '''' \<and>
   Method (HTTP (zero_Packet\<lparr>Length := 98, NetProto := ''IPv4'', NetSrc := ''10.0.0.1'',
                 NetDst := ''10.0.0.2''\<rparr>)) = '''' \<and>
   ApplicationLayer arp_padded_packet = ApplicationLayer icmp_echo_packet \<and>
   reifyPacket example_ReadRequest (Some arp_padded_packet) =
     Returned (zero_Packet\<lparr>Length := 120\<rparr>, None) \<and>
   ApplicationLayer malformed_http_packet = ApplicationLayer icmp_echo_packet \<and>
   reifyPacket example_ReadRequest (Some malformed_http_packet) =
     Returned (zero_Packet, Some ''decoding packet: decoder panic'')"
proof -
  have n: "NetworkLayer icmp_echo_packet = Some ipv4_layer"
    "TransportLayer icmp_echo_packet = None"
    "NetworkLayer arp_padded_packet = None"
    by (simp_all add: icmp_echo_packet_def arp_padded_packet_def)
  show ?thesis
    using reifyPacket_no_transport [OF example_decode_errors(5) n(1) n(2), of example_ReadRequest]
      reifyPacket_no_network [OF example_decode_errors(4) n(3), of example_ReadRequest]
      reifyPacket_error [OF example_decode_errors(2), of example_ReadRequest]
    by (simp add: example_ReadRequest_get)
      (simp add: icmp_echo_packet_def arp_padded_packet_def malformed_http_packet_def
        ipv4_layer_def zero_Packet_def zero_http_def)
qed

text \<open>
  C6, amended. For every packet whose error layer reports no error and that has a
  network layer, a transport layer and an application layer, \<^verbatim>\<open>reifyPacket\<close> returns no
  error, sets \<open>AppProto\<close> to the application layer's type name, and, when
  \<^verbatim>\<open>http.ReadRequest\<close> accepts the payload, sets \<open>HTTP.Method\<close> to the request's method,
  \<open>HTTP.Hostname\<close> to the request's host and \<open>HTTP.UserAgent\<close> to its User-Agent header,
  which is empty when the request has none. When \<^verbatim>\<open>http.ReadRequest\<close> rejects the
  payload nothing else is tried (no response parser), and \<open>HTTP\<close> stays at its zero value.
\<close>

theorem reifyPacket_HTTP_request:
  assumes "decode_error pkt = None"
    and "NetworkLayer pkt = Some n"
    and "TransportLayer pkt = Some t"
    and "ApplicationLayer pkt = Some a"
  shows "\<exists>pr. reifyPacket rr (Some pkt) = Returned (pr, None) \<and>
           AppProto pr = app_LayerType a \<and>
           HTTP pr =
             (case rr (app_Payload a) of
                Inr req \<Rightarrow> \<lparr>Hostname = req_Host req, UserAgent = req_UserAgent req,
                             Method = req_Method req\<rparr>
              | Inl perr \<Rightarrow> zero_http) \<and>
           (\<forall>req. rr (app_Payload a) = Inr req \<and> req_Header req ''User-Agent'' = None \<longrightarrow>
              UserAgent (HTTP pr) = '''')"
proof -
  let ?pr0 = "zero_Packet\<lparr>Length := MetadataLength pkt, NetProto := net_LayerType n,
      NetSrc := net_Src n, NetDst := net_Dst n, TransProto := trans_LayerType t,
      TransSrc := trans_Src t, TransDst := trans_Dst t\<rparr>"
  let ?pr = "read_application rr pkt (copy_tcp_flags t ?pr0)"
  have r: "reifyPacket rr (Some pkt) = Returned (?pr, None)"
    using assms(1-3) by (rule reifyPacket_transport)
  have app: "AppProto ?pr = app_LayerType a"
    by (simp add: read_application_AppProto copy_tcp_flags_keeps zero_Packet_def assms(4))
  have http: "HTTP ?pr =
      (case rr (app_Payload a) of
         Inr req \<Rightarrow> \<lparr>Hostname = req_Host req, UserAgent = req_UserAgent req,
                      Method = req_Method req\<rparr>
       | Inl perr \<Rightarrow> zero_http)"
    by (simp add: read_application_HTTP copy_tcp_flags_keeps zero_Packet_def assms(4))
  have "\<forall>req. rr (app_Payload a) = Inr req \<and> req_Header req ''User-Agent'' = None \<longrightarrow>
      UserAgent (HTTP ?pr) = ''''"
    by (simp add: http req_UserAgent_def)
  with r app http show ?thesis
    by blast
qed

theorem reifyPacket_HTTP_request_witness:
  "(\<exists>pr. reifyPacket example_ReadRequest (Some http_get_packet) = Returned (pr, None) \<and>
         AppProto pr = ''Payload'' \<and>
         HTTP pr = \<lparr>Hostname = ''example.com'', UserAgent = ''curl/7.58.0'',
                    Method = ''GET''\<rparr>) \<and>
   (\<exists>pr. reifyPacket
           (\<lambda>b. Inr \<lparr>req_Method = ''POST'', req_Host = ''example.org'',
                       req_Header = Map.empty\<rparr>)
           (Some http_get_packet) = Returned (pr, None) \<and>
         HTTP pr = \<lparr>Hostname = ''example.org'', UserAgent = '''', Method = ''POST''\<rparr>)"
proof -
  have a: "decode_error http_get_packet = None"
    "NetworkLayer http_get_packet = Some ipv4_layer"
    "TransportLayer http_get_packet = Some data_segment"
    "ApplicationLayer http_get_packet =
       Some \<lparr>app_LayerType = ''Payload'', app_Payload = get_request_text\<rparr>"
    by (simp_all add: example_decode_errors) (simp_all add: http_get_packet_def)
  show ?thesis
    using reifyPacket_HTTP_request [OF a, of example_ReadRequest]
      reifyPacket_HTTP_request [OF a,
        of "\<lambda>b. Inr \<lparr>req_Method = ''POST'', req_Host = ''example.org'',
                       req_Header = Map.empty\<rparr>"]
    by (simp add: example_ReadRequest_get req_UserAgent_def) blast
qed

subsection \<open>Record, call by call\<close>

lemma word_mod_1000: "((w::64 word) mod 1000 = 20) = (unat w mod 1000 = 20)"
  by (simp add: word_unat_eq_iff unat_mod_distrib)

lemma decimal_20: "decimal 20 = ''20''" "decimal 1020 = ''1020''"
  by code_simp+

lemma Record_num: "num (after (Record rr n)) = num n + 1"
  by (simp add: Record_def Let_def split: option.splits prod.splits)

lemma Record_Cons:
  assumes "queue (packets n) = v # vs"
  shows "result (Record rr n) = reifyPacket rr v"
    and "after (Record rr n) = n\<lparr>num := num n + 1, packets := (packets n)\<lparr>queue := vs\<rparr>\<rparr>"
  using assms by (simp_all add: Record_def chan_recv_def Let_def)

lemma Record_closed:
  assumes "queue (packets n) = []" and "closed (packets n)"
  shows "result (Record rr n) = Panicked"
    and "after (Record rr n) = n\<lparr>num := num n + 1\<rparr>"
  using assms by (simp_all add: Record_def chan_recv_def Let_def reifyPacket_def)

lemma Record_open:
  assumes "queue (packets n) = []" and "\<not> closed (packets n)"
  shows "result (Record rr n) = Blocked"
    and "after (Record rr n) = n\<lparr>num := num n + 1\<rparr>"
  using assms by (simp_all add: Record_def chan_recv_def Let_def)

lemma Records_offline:
  "Records rr (length pkts) (n\<lparr>packets := \<lparr>queue = map Some pkts, closed = True\<rparr>\<rparr>) =
     (map (\<lambda>p. reifyPacket rr (Some p)) pkts,
      n\<lparr>num := num n + of_nat (length pkts), packets := \<lparr>queue = [], closed = True\<rparr>\<rparr>)"
proof (induction pkts arbitrary: n)
  case Nil
  show ?case by simp
next
  case (Cons p ps)
  let ?n = "n\<lparr>packets := \<lparr>queue = Some p # map Some ps, closed = True\<rparr>\<rparr>"
  have q: "queue (packets ?n) = Some p # map Some ps"
    by simp
  have a: "after (Record rr ?n) =
      (n\<lparr>num := num n + 1\<rparr>)\<lparr>packets := \<lparr>queue = map Some ps, closed = True\<rparr>\<rparr>"
    using Record_Cons(2) [OF q, of rr] by simp
  have r: "result (Record rr ?n) = reifyPacket rr (Some p)"
    by (rule Record_Cons(1) [OF q])
  have ih: "Records rr (length ps) (after (Record rr ?n)) =
      (map (\<lambda>p. reifyPacket rr (Some p)) ps,
       n\<lparr>num := num n + 1 + of_nat (length ps),
          packets := \<lparr>queue = [], closed = True\<rparr>\<rparr>)"
    unfolding a using Cons.IH [of "n\<lparr>num := num n + 1\<rparr>"] by simp
  show ?case
    by (simp add: Let_def r ih ac_simps)
qed

subsection \<open>C2: past the last packet of a capture file\<close>

text \<open>
  C2. An offline source over a capture of \<open>K\<close> packets: the channel delivers the packets
  in the file's order and is then closed. The first \<open>K\<close> calls of \<^verbatim>\<open>Record\<close> return the
  \<open>K\<close> packets decoded, in order. The next call does not return an end-of-stream value:
  the receive on the closed channel yields a nil packet and \<^verbatim>\<open>reifyPacket\<close> panics on it.
\<close>

theorem Record_past_last_packet_panics:
  "fst (Records rr (length pkts) (n\<lparr>packets := \<lparr>queue = map Some pkts, closed = True\<rparr>\<rparr>)) =
     map (\<lambda>p. reifyPacket rr (Some p)) pkts \<and>
   result (Record rr
     (snd (Records rr (length pkts) (n\<lparr>packets := \<lparr>queue = map Some pkts, closed = True\<rparr>\<rparr>)))) =
     Panicked"
  by (simp add: Records_offline Record_closed(1))

theorem Record_past_last_packet_panics_witness:
  "fst (NewNetSource example_pcap (NewMain\<lparr>Filename := ''capture.pcap''\<rparr>)) =
     Inr \<lparr>num = 0, debug = False,
          packets = \<lparr>queue = [Some http_get_packet, Some udp_packet], closed = True\<rparr>\<rparr> \<and>
   fst (Records example_ReadRequest 2
         \<lparr>num = 0, debug = False,
          packets = \<lparr>queue = [Some http_get_packet, Some udp_packet], closed = True\<rparr>\<rparr>) =
     [reifyPacket example_ReadRequest (Some http_get_packet),
      reifyPacket example_ReadRequest (Some udp_packet)] \<and>
   result (Record example_ReadRequest
     (snd (Records example_ReadRequest 2
         \<lparr>num = 0, debug = False,
          packets = \<lparr>queue = [Some http_get_packet, Some udp_packet], closed = True\<rparr>\<rparr>))) =
     Panicked"
proof -
  have "fst (NewNetSource example_pcap (NewMain\<lparr>Filename := ''capture.pcap''\<rparr>)) =
     Inr \<lparr>num = 0, debug = False,
          packets = \<lparr>queue = [Some http_get_packet, Some udp_packet], closed = True\<rparr>\<rparr>"
    by (simp add: NewNetSource_def open_capture_def)
      (simp add: example_pcap_def NewMain_def)
  then show ?thesis
    using Record_past_last_packet_panics
      [of example_ReadRequest "[http_get_packet, udp_packet]"
        "\<lparr>num = 0, debug = False, packets = \<lparr>queue = [], closed = True\<rparr>\<rparr>"]
    by (simp add: numeral_2_eq_2)
qed

subsection \<open>C3: the decode error\<close>

text \<open>
  C3 as stated fails. The packet below has a network layer and a TCP transport layer,
  so its link layer and its network layer were decoded; the error layer records the
  failure of a later decoder. \<^verbatim>\<open>reifyPacket\<close> returns an error all the same, and the
  record returned with it is not partially filled: it is the zero record, with neither
  the length nor the fields of the layers that were decoded.
\<close>

theorem reifyPacket_error_not_link_layer_counterexample:
  "NetworkLayer malformed_packet = Some ipv4_layer \<and>
   TransportLayer malformed_packet = Some syn_ack_segment \<and>
   reifyPacket example_ReadRequest (Some malformed_packet) =
     Returned (zero_Packet, Some ''decoding packet: Invalid TLS record'') \<and>
   Length zero_Packet \<noteq> MetadataLength malformed_packet \<and>
   NetProto zero_Packet \<noteq> net_LayerType ipv4_layer \<and>
   TransProto zero_Packet \<noteq> trans_LayerType syn_ack_segment"
  using reifyPacket_error [OF example_decode_errors(1), of example_ReadRequest]
  by (simp add: malformed_packet_def zero_Packet_def ipv4_layer_def syn_ack_segment_def)

text \<open>
  C3, amended. \<^verbatim>\<open>reifyPacket\<close> returns a non-nil error exactly when the packet's error
  layer reports an error, whichever layer failed to decode; the record returned with it
  is the zero record. The error does not end the stream: whatever the head of the
  channel decodes to, the next call of \<^verbatim>\<open>Record\<close> decodes the value that follows it.
\<close>

theorem reifyPacket_error_iff_decode_error:
  "(\<exists>pr err. reifyPacket rr (Some pkt) = Returned (pr, err) \<and>
      (err \<noteq> None) = (decode_error pkt \<noteq> None)) \<and>
   (decode_error pkt = Some e \<longrightarrow>
      reifyPacket rr (Some pkt) = Returned (zero_Packet, Some (''decoding packet: '' @ e))) \<and>
   (queue (packets n) = Some pkt # v # vs \<longrightarrow>
      result (Record rr n) = reifyPacket rr (Some pkt) \<and>
      result (Record rr (after (Record rr n))) = reifyPacket rr v)"
proof (intro conjI impI)
  obtain pr where "reifyPacket rr (Some pkt) =
      Returned (pr, map_option (\<lambda>e. ''decoding packet: '' @ e) (decode_error pkt))"
    using reifyPacket_returns by blast
  then show "\<exists>pr err. reifyPacket rr (Some pkt) = Returned (pr, err) \<and>
      (err \<noteq> None) = (decode_error pkt \<noteq> None)"
    by simp
next
  assume "decode_error pkt = Some e"
  then show "reifyPacket rr (Some pkt) = Returned (zero_Packet, Some (''decoding packet: '' @ e))"
    by (rule reifyPacket_error)
next
  assume q: "queue (packets n) = Some pkt # v # vs"
  then show "result (Record rr n) = reifyPacket rr (Some pkt)"
    by (rule Record_Cons(1))
  have "queue (packets (after (Record rr n))) = v # vs"
    by (simp add: Record_Cons(2) [OF q])
  then show "result (Record rr (after (Record rr n))) = reifyPacket rr v"
    by (rule Record_Cons(1))
qed

theorem reifyPacket_error_iff_decode_error_witness:
  "decode_error malformed_packet = Some ''Invalid TLS record'' \<and>
   queue (packets two_packet_source) = [Some malformed_packet, Some udp_packet] \<and>
   result (Record example_ReadRequest two_packet_source) =
     Returned (zero_Packet, Some ''decoding packet: Invalid TLS record'') \<and>
   result (Record example_ReadRequest (after (Record example_ReadRequest two_packet_source))) =
     reifyPacket example_ReadRequest (Some udp_packet) \<and>
   (\<exists>pr. reifyPacket example_ReadRequest (Some udp_packet) = Returned (pr, None))"
proof -
  have q: "queue (packets two_packet_source) = Some malformed_packet # Some udp_packet # []"
    by (simp add: two_packet_source_def)
  show ?thesis
    using reifyPacket_error_iff_decode_error
        [of example_ReadRequest malformed_packet "''Invalid TLS record''" two_packet_source
          "Some udp_packet" "[]"]
      reifyPacket_error_iff_decode_error [of example_ReadRequest udp_packet]
    by (simp add: q example_decode_errors)
qed

subsection \<open>C7: the order of the steps of Record\<close>

lemma Record_effects_full:
  "effects (Record rr n) =
     CounterAdd #
     (if debug n \<and> unat (num n + 1) mod 1000 = 20
      then [LogPrintln (''Record has reported '' @ decimal (unat (num n + 1)) @ '' packets'')]
      else []) @
     (case chan_recv (packets n) of
        None \<Rightarrow> []
      | Some (v, c) \<Rightarrow> [ChanReceive v, CallReifyPacket])"
  by (simp add: Record_def Let_def word_mod_1000 split: option.splits prod.splits)

text \<open>
  C7 as stated fails. On a source with one packet the counter is incremented before the
  packet is received and decoded, not after. The second call receives a nil packet from
  the closed channel and panics: it yields no record, and has advanced the count all the
  same.
\<close>

theorem Record_receives_before_counting_counterexample:
  "effects (Record example_ReadRequest one_packet_source) =
     [CounterAdd, ChanReceive (Some udp_packet), CallReifyPacket] \<and>
   effects (Record example_ReadRequest one_packet_source) \<noteq>
     [ChanReceive (Some udp_packet), CallReifyPacket, CounterAdd] \<and>
   result (Record example_ReadRequest
     (after (Record example_ReadRequest one_packet_source))) = Panicked \<and>
   num (after (Record example_ReadRequest
     (after (Record example_ReadRequest one_packet_source)))) = 2"
  by (simp add: Record_def one_packet_source_def chan_recv_def Let_def reifyPacket_def)

text \<open>
  C7, amended. Every call of \<^verbatim>\<open>Record\<close> adds exactly one to the counter (modulo
  \<open>2 ^ 64\<close>), whether or not it yields a record. Its effects, in order, are: the
  increment; the diagnostic line, if \<^verbatim>\<open>debug\<close> is set and the new count leaves remainder
  20 modulo 1000; and, unless the receive blocks, the receive from the channel and the
  decoding of the value received. A call that returns has received exactly one packet,
  the head of the queue, and returns what \<^verbatim>\<open>reifyPacket\<close> returned for it.
\<close>

theorem Record_counts_then_receives:
  "num (after (Record rr n)) = num n + 1 \<and>
   unat (num (after (Record rr n))) = (unat (num n) + 1) mod 2 ^ 64 \<and>
   effects (Record rr n) =
     CounterAdd #
     (if debug n \<and> unat (num n + 1) mod 1000 = 20
      then [LogPrintln (''Record has reported '' @ decimal (unat (num n + 1)) @ '' packets'')]
      else []) @
     (case chan_recv (packets n) of
        None \<Rightarrow> []
      | Some (v, c) \<Rightarrow> [ChanReceive v, CallReifyPacket]) \<and>
   (\<forall>pr err. result (Record rr n) = Returned (pr, err) \<longrightarrow>
      (\<exists>pkt. queue (packets n) = Some pkt # queue (packets (after (Record rr n))) \<and>
             reifyPacket rr (Some pkt) = Returned (pr, err) \<and>
             effects (Record rr n) =
               CounterAdd #
               (if debug n \<and> unat (num n + 1) mod 1000 = 20
                then [LogPrintln (''Record has reported '' @ decimal (unat (num n + 1)) @
                                  '' packets'')]
                else []) @
               [ChanReceive (Some pkt), CallReifyPacket]))"
proof (intro conjI allI impI)
  show "num (after (Record rr n)) = num n + 1"
    by (rule Record_num)
  show "unat (num (after (Record rr n))) = (unat (num n) + 1) mod 2 ^ 64"
    by (simp add: Record_num unat_word_ariths)
  show "effects (Record rr n) =
     CounterAdd #
     (if debug n \<and> unat (num n + 1) mod 1000 = 20
      then [LogPrintln (''Record has reported '' @ decimal (unat (num n + 1)) @ '' packets'')]
      else []) @
     (case chan_recv (packets n) of
        None \<Rightarrow> []
      | Some (v, c) \<Rightarrow> [ChanReceive v, CallReifyPacket])"
    by (rule Record_effects_full)
next
  fix pr err
  assume ret: "result (Record rr n) = Returned (pr, err)"
  show "\<exists>pkt. queue (packets n) = Some pkt # queue (packets (after (Record rr n))) \<and>
      reifyPacket rr (Some pkt) = Returned (pr, err) \<and>
      effects (Record rr n) =
        CounterAdd #
        (if debug n \<and> unat (num n + 1) mod 1000 = 20
         then [LogPrintln (''Record has reported '' @ decimal (unat (num n + 1)) @
                           '' packets'')]
         else []) @
        [ChanReceive (Some pkt), CallReifyPacket]"
  proof (cases "queue (packets n)")
    case Nil
    with ret show ?thesis
      by (cases "closed (packets n)") (simp_all add: Record_closed(1) Record_open(1))
  next
    case (Cons v vs)
    from ret have r: "reifyPacket rr v = Returned (pr, err)"
      by (simp add: Record_Cons(1) [OF Cons])
    then obtain pkt where v: "v = Some pkt"
      by (cases v) (simp_all add: reifyPacket_def)
    have c: "chan_recv (packets n) = Some (Some pkt, (packets n)\<lparr>queue := vs\<rparr>)"
      by (simp add: chan_recv_def Cons v)
    have e: "effects (Record rr n) =
        CounterAdd #
        (if debug n \<and> unat (num n + 1) mod 1000 = 20
         then [LogPrintln (''Record has reported '' @ decimal (unat (num n + 1)) @
                           '' packets'')]
         else []) @
        [ChanReceive (Some pkt), CallReifyPacket]"
      unfolding Record_effects_full c by simp
    have q: "queue (packets n) = Some pkt # queue (packets (after (Record rr n)))"
      by (simp add: Record_Cons(2) [OF Cons] Cons v)
    from q r v e show ?thesis
      by blast
  qed
qed

theorem Record_counts_then_receives_witness:
  "result (Record example_ReadRequest (debug_source 19)) =
     reifyPacket example_ReadRequest (Some udp_packet) \<and>
   queue (packets (after (Record example_ReadRequest (debug_source 19)))) = [] \<and>
   num (after (Record example_ReadRequest (debug_source 19))) = 20 \<and>
   effects (Record example_ReadRequest (debug_source 19)) =
     [CounterAdd, LogPrintln ''Record has reported 20 packets'',
      ChanReceive (Some udp_packet), CallReifyPacket] \<and>
   effects (Record example_ReadRequest one_packet_source) =
     [CounterAdd, ChanReceive (Some udp_packet), CallReifyPacket]"
proof -
  let ?r = "Record example_ReadRequest (debug_source 19)"
  obtain pr where r: "reifyPacket example_ReadRequest (Some udp_packet) = Returned (pr, None)"
    using reifyPacket_returns [of example_ReadRequest udp_packet]
    by (auto simp: example_decode_errors)
  have q: "queue (packets (debug_source 19)) = [Some udp_packet]"
    by (simp add: debug_source_def)
  have ret: "result ?r = Returned (pr, None)"
    by (simp add: Record_Cons(1) [OF q] r)
  have d: "debug (debug_source 19) \<and> unat (num (debug_source 19) + 1) mod 1000 = 20"
    "unat (num (debug_source 19) + 1) = 20"
    by (simp_all add: debug_source_def)
  note t = Record_counts_then_receives [of example_ReadRequest "debug_source 19"]
  from t have "num (after ?r) = num (debug_source 19) + 1"
    by (rule conjunct1)
  then have n1: "num (after ?r) = 20"
    by (simp add: debug_source_def)
  from t ret obtain pkt
    where p: "queue (packets (debug_source 19)) = Some pkt # queue (packets (after ?r))"
      and e: "effects ?r =
        CounterAdd #
        (if debug (debug_source 19) \<and> unat (num (debug_source 19) + 1) mod 1000 = 20
         then [LogPrintln (''Record has reported '' @
                 decimal (unat (num (debug_source 19) + 1)) @ '' packets'')]
         else []) @
        [ChanReceive (Some pkt), CallReifyPacket]"
    by blast
  from p q have k: "pkt = udp_packet" and "queue (packets (after ?r)) = []"
    by simp_all
  moreover from e have "effects ?r =
     [CounterAdd, LogPrintln ''Record has reported 20 packets'',
      ChanReceive (Some udp_packet), CallReifyPacket]"
    by (simp add: d k decimal_20)
  moreover have "effects (Record example_ReadRequest one_packet_source) =
     [CounterAdd, ChanReceive (Some udp_packet), CallReifyPacket]"
    using Record_counts_then_receives [of example_ReadRequest one_packet_source]
    by (simp add: one_packet_source_def chan_recv_def)
  ultimately show ?thesis
    using n1 ret r by simp
qed

subsection \<open>C9: the diagnostic log line\<close>

lemma Record_logs:
  "filter is_log (effects (Record rr n)) =
     (if debug n \<and> (num n + 1) mod 1000 = 20
      then [LogPrintln (''Record has reported '' @ decimal (unat (num n + 1)) @ '' packets'')]
      else [])"
  by (simp add: Record_def Let_def split: option.splits prod.splits)

text \<open>
  C9. A call of \<^verbatim>\<open>Record\<close> gives a line to \<^verbatim>\<open>log.Println\<close> if and only if \<^verbatim>\<open>debug\<close> is set
  and the count it has just reached leaves remainder 20 when divided by 1000.
\<close>

theorem Record_logs_iff:
  "(\<exists>line. LogPrintln line \<in> set (effects (Record rr n))) =
     (debug n \<and> unat (num (after (Record rr n))) mod 1000 = 20)"
proof -
  have "(\<exists>line. LogPrintln line \<in> set (effects (Record rr n))) =
      (debug n \<and> (num n + 1) mod 1000 = 20)"
    by (auto simp: Record_def Let_def split: option.splits prod.splits)
  also have "\<dots> = (debug n \<and> unat (num (after (Record rr n))) mod 1000 = 20)"
    by (simp add: Record_num word_mod_1000)
  finally show ?thesis .
qed

theorem Record_logs_iff_witness:
  "(\<exists>line. LogPrintln line \<in> set (effects (Record example_ReadRequest (debug_source 19)))) \<and>
   filter is_log (effects (Record example_ReadRequest (debug_source 1019))) =
     [LogPrintln ''Record has reported 1020 packets''] \<and>
   \<not> (\<exists>line. LogPrintln line \<in> set (effects (Record example_ReadRequest (debug_source 20)))) \<and>
   \<not> (\<exists>line. LogPrintln line \<in> set (effects (Record example_ReadRequest
        ((debug_source 19)\<lparr>debug := False\<rparr>))))"
proof -
  have "filter is_log (effects (Record example_ReadRequest (debug_source 1019))) =
     [LogPrintln ''Record has reported 1020 packets'']"
    by (simp add: Record_logs debug_source_def decimal_20)
  then show ?thesis
    using Record_logs_iff [of example_ReadRequest "debug_source 19"]
      Record_logs_iff [of example_ReadRequest "debug_source 20"]
      Record_logs_iff [of example_ReadRequest "(debug_source 19)\<lparr>debug := False\<rparr>"]
    by (simp add: Record_num debug_source_def)
qed

subsection \<open>NewNetSource\<close>

lemma NewNetSource_calls:
  "snd (NewNetSource lib m) =
     fst (open_capture lib m) #
     (case snd (open_capture lib m) of
        Inl err \<Rightarrow> []
      | Inr h \<Rightarrow>
          CallSetBPFFilter (Filter m) #
          (case SetBPFFilter lib h (Filter m) of Inl err \<Rightarrow> [] | Inr h' \<Rightarrow> [CallPackets]))"
  by (simp add: NewNetSource_def split: prod.splits sum.splits)

lemma NewNetSource_filter_error:
  "snd (open_capture lib m) = Inr h \<Longrightarrow> SetBPFFilter lib h (Filter m) = Inl e \<Longrightarrow>
   fst (NewNetSource lib m) = Inl (''error setting bpf filter: '' @ e)"
  by (cases "open_capture lib m") (simp add: NewNetSource_def)

lemma NewNetSource_Inr:
  "fst (NewNetSource lib m) = Inr n \<Longrightarrow>
   \<exists>h h'. snd (open_capture lib m) = Inr h \<and> SetBPFFilter lib h (Filter m) = Inr h' \<and>
           n = \<lparr>num = 0, debug = False, packets = Packets lib h'\<rparr>"
  by (auto simp: NewNetSource_def split: prod.splits sum.splits)

subsection \<open>C8: the filter is installed before a source exists\<close>

text \<open>
  C8. When the capture opens, the next library call of \<^verbatim>\<open>NewNetSource\<close> is
  \<^verbatim>\<open>SetBPFFilter\<close> with the configured expression. If that call fails, \<^verbatim>\<open>NewNetSource\<close>
  returns the filter error and no source, and the packet channel is never created.
  Whenever a source is returned, the filter was installed, and the source's channel is
  the one of the handle that carries the filter.
\<close>

theorem NewNetSource_filter_first:
  "(\<forall>h. snd (open_capture lib m) = Inr h \<longrightarrow>
      take 2 (snd (NewNetSource lib m)) =
        [fst (open_capture lib m), CallSetBPFFilter (Filter m)] \<and>
      (\<forall>e. SetBPFFilter lib h (Filter m) = Inl e \<longrightarrow>
         NewNetSource lib m =
           (Inl (''error setting bpf filter: '' @ e),
            [fst (open_capture lib m), CallSetBPFFilter (Filter m)]))) \<and>
   (\<forall>n. fst (NewNetSource lib m) = Inr n \<longrightarrow>
      (\<exists>h h'. snd (open_capture lib m) = Inr h \<and>
              SetBPFFilter lib h (Filter m) = Inr h' \<and>
              packets n = Packets lib h'))"
proof (intro conjI allI impI)
  fix h assume o: "snd (open_capture lib m) = Inr h"
  then show "take 2 (snd (NewNetSource lib m)) =
      [fst (open_capture lib m), CallSetBPFFilter (Filter m)]"
    by (simp add: NewNetSource_calls split: sum.splits)
  fix e assume "SetBPFFilter lib h (Filter m) = Inl e"
  with o show "NewNetSource lib m =
      (Inl (''error setting bpf filter: '' @ e),
       [fst (open_capture lib m), CallSetBPFFilter (Filter m)])"
    by (simp add: prod_eq_iff NewNetSource_filter_error NewNetSource_calls)
next
  fix n assume "fst (NewNetSource lib m) = Inr n"
  from NewNetSource_Inr [OF this]
  show "\<exists>h h'. snd (open_capture lib m) = Inr h \<and>
      SetBPFFilter lib h (Filter m) = Inr h' \<and> packets n = Packets lib h'"
    by auto
qed

lemma example_open_capture:
  "open_capture example_pcap (NewMain\<lparr>Filename := ''capture.pcap'', Filter := f\<rparr>) =
     (CallOpenOffline ''capture.pcap'', Inr ''capture.pcap'')"
  by (simp add: open_capture_def example_pcap_def NewMain_def)

theorem NewNetSource_filter_first_witness:
  "NewNetSource example_pcap (NewMain\<lparr>Filename := ''capture.pcap'', Filter := ''tcp port''\<rparr>) =
     (Inl ''error setting bpf filter: syntax error'',
      [CallOpenOffline ''capture.pcap'', CallSetBPFFilter ''tcp port'']) \<and>
   fst (NewNetSource example_pcap
         (NewMain\<lparr>Filename := ''capture.pcap'', Filter := ''tcp port 80''\<rparr>)) =
     Inr \<lparr>num = 0, debug = False,
          packets = \<lparr>queue = [Some http_get_packet, Some udp_packet], closed = True\<rparr>\<rparr> \<and>
   SetBPFFilter example_pcap ''capture.pcap'' ''tcp port 80'' = Inr ''capture.pcap''"
proof -
  let ?bad = "NewMain\<lparr>Filename := ''capture.pcap'', Filter := ''tcp port''\<rparr>"
  let ?good = "NewMain\<lparr>Filename := ''capture.pcap'', Filter := ''tcp port 80''\<rparr>"
  have f: "SetBPFFilter example_pcap ''capture.pcap'' (Filter ?bad) = Inl ''syntax error''"
    by (simp add: example_pcap_def)
  have g: "fst (NewNetSource example_pcap ?good) =
     Inr \<lparr>num = 0, debug = False,
          packets = \<lparr>queue = [Some http_get_packet, Some udp_packet], closed = True\<rparr>\<rparr>"
    by (simp add: NewNetSource_def example_open_capture) (simp add: example_pcap_def)
  have s: "SetBPFFilter example_pcap ''capture.pcap'' ''tcp port 80'' = Inr ''capture.pcap''"
    by (simp add: example_pcap_def)
  from NewNetSource_filter_first [of example_pcap ?bad] f
  have "NewNetSource example_pcap ?bad =
     (Inl ''error setting bpf filter: syntax error'',
      [CallOpenOffline ''capture.pcap'', CallSetBPFFilter ''tcp port''])"
    by (simp add: example_open_capture)
  with g s show ?thesis
    by simp
qed

subsection \<open>C10: the source mode\<close>

lemma open_capture_offline:
  "Filename m \<noteq> '''' \<Longrightarrow>
   open_capture lib m = (CallOpenOffline (Filename m), OpenOffline lib (Filename m))"
  by (simp add: open_capture_def)

lemma open_capture_live:
  "Filename m = '''' \<Longrightarrow>
   open_capture lib m =
     (CallOpenLive (Iface m) (Snaplen m) (Promisc m) (Timeout m),
      OpenLive lib (Iface m) (Snaplen m) (Promisc m) (Timeout m))"
  by (simp add: open_capture_def)

text \<open>
  C10. With a non-empty \<open>Filename\<close>, \<^verbatim>\<open>NewNetSource\<close> calls \<^verbatim>\<open>OpenOffline\<close> on that file
  and builds its result from what that call returns: the open error, the filter error,
  or a source on the channel of the handle with the filter installed. \<open>Iface\<close>,
  \<open>Snaplen\<close>, \<open>Promisc\<close> and \<open>Timeout\<close> have no influence on what it does or returns,
  and a configuration that names both an interface and a file is not refused. With an
  empty \<open>Filename\<close> it does the same with \<^verbatim>\<open>OpenLive\<close> on these four fields.
  \<^verbatim>\<open>OpenLive\<close> is called if and only if \<open>Filename\<close> is empty, and \<^verbatim>\<open>OpenOffline\<close> if and
  only if it is not.
\<close>

theorem NewNetSource_mode_by_Filename:
  "(Filename m \<noteq> '''' \<longrightarrow>
      NewNetSource lib m =
        (case OpenOffline lib (Filename m) of
           Inl err \<Rightarrow> (Inl (''open error: '' @ err), [CallOpenOffline (Filename m)])
         | Inr h \<Rightarrow>
             (case SetBPFFilter lib h (Filter m) of
                Inl err \<Rightarrow>
                  (Inl (''error setting bpf filter: '' @ err),
                   [CallOpenOffline (Filename m), CallSetBPFFilter (Filter m)])
              | Inr h' \<Rightarrow>
                  (Inr \<lparr>num = 0, debug = False, packets = Packets lib h'\<rparr>,
                   [CallOpenOffline (Filename m), CallSetBPFFilter (Filter m),
                    CallPackets]))) \<and>
      NewNetSource lib (m\<lparr>Iface := i, Snaplen := s, Promisc := p, Timeout := t\<rparr>) =
        NewNetSource lib m) \<and>
   (Filename m = '''' \<longrightarrow>
      NewNetSource lib m =
        (case OpenLive lib (Iface m) (Snaplen m) (Promisc m) (Timeout m) of
           Inl err \<Rightarrow>
             (Inl (''open error: '' @ err),
              [CallOpenLive (Iface m) (Snaplen m) (Promisc m) (Timeout m)])
         | Inr h \<Rightarrow>
             (case SetBPFFilter lib h (Filter m) of
                Inl err \<Rightarrow>
                  (Inl (''error setting bpf filter: '' @ err),
                   [CallOpenLive (Iface m) (Snaplen m) (Promisc m) (Timeout m),
                    CallSetBPFFilter (Filter m)])
              | Inr h' \<Rightarrow>
                  (Inr \<lparr>num = 0, debug = False, packets = Packets lib h'\<rparr>,
                   [CallOpenLive (Iface m) (Snaplen m) (Promisc m) (Timeout m),
                    CallSetBPFFilter (Filter m), CallPackets])))) \<and>
   ((\<exists>i' s' p' t'. CallOpenLive i' s' p' t' \<in> set (snd (NewNetSource lib m))) =
      (Filename m = '''')) \<and>
   ((\<exists>f. CallOpenOffline f \<in> set (snd (NewNetSource lib m))) = (Filename m \<noteq> ''''))"
proof (intro conjI impI)
  assume f: "Filename m \<noteq> ''''"
  then show "NewNetSource lib m =
        (case OpenOffline lib (Filename m) of
           Inl err \<Rightarrow> (Inl (''open error: '' @ err), [CallOpenOffline (Filename m)])
         | Inr h \<Rightarrow>
             (case SetBPFFilter lib h (Filter m) of
                Inl err \<Rightarrow>
                  (Inl (''error setting bpf filter: '' @ err),
                   [CallOpenOffline (Filename m), CallSetBPFFilter (Filter m)])
              | Inr h' \<Rightarrow>
                  (Inr \<lparr>num = 0, debug = False, packets = Packets lib h'\<rparr>,
                   [CallOpenOffline (Filename m), CallSetBPFFilter (Filter m),
                    CallPackets])))"
    by (simp add: NewNetSource_def open_capture_offline split: sum.splits)
  from f show "NewNetSource lib (m\<lparr>Iface := i, Snaplen := s, Promisc := p, Timeout := t\<rparr>) =
      NewNetSource lib m"
    by (simp add: NewNetSource_def open_capture_offline split: sum.splits)
next
  assume "Filename m = ''''"
  then show "NewNetSource lib m =
        (case OpenLive lib (Iface m) (Snaplen m) (Promisc m) (Timeout m) of
           Inl err \<Rightarrow>
             (Inl (''open error: '' @ err),
              [CallOpenLive (Iface m) (Snaplen m) (Promisc m) (Timeout m)])
         | Inr h \<Rightarrow>
             (case SetBPFFilter lib h (Filter m) of
                Inl err \<Rightarrow>
                  (Inl (''error setting bpf filter: '' @ err),
                   [CallOpenLive (Iface m) (Snaplen m) (Promisc m) (Timeout m),
                    CallSetBPFFilter (Filter m)])
              | Inr h' \<Rightarrow>
                  (Inr \<lparr>num = 0, debug = False, packets = Packets lib h'\<rparr>,
                   [CallOpenLive (Iface m) (Snaplen m) (Promisc m) (Timeout m),
                    CallSetBPFFilter (Filter m), CallPackets])))"
    by (simp add: NewNetSource_def open_capture_live split: sum.splits)
next
  show "(\<exists>i' s' p' t'. CallOpenLive i' s' p' t' \<in> set (snd (NewNetSource lib m))) =
      (Filename m = '''')"
    by (cases "Filename m = ''''")
      (auto simp: NewNetSource_calls open_capture_offline open_capture_live
        split: sum.splits)
  show "(\<exists>f. CallOpenOffline f \<in> set (snd (NewNetSource lib m))) = (Filename m \<noteq> '''')"
    by (cases "Filename m = ''''")
      (auto simp: NewNetSource_calls open_capture_offline open_capture_live
        split: sum.splits)
qed

lemma example_pcap_calls:
  "OpenOffline example_pcap ''capture.pcap'' = Inr ''capture.pcap''"
  "OpenLive example_pcap ''en0'' 1500 False 1000000 = Inr ''en0''"
  "SetBPFFilter example_pcap h '''' = Inr h"
  "Packets example_pcap ''capture.pcap'' =
     \<lparr>queue = [Some http_get_packet, Some udp_packet], closed = True\<rparr>"
  "Packets example_pcap ''en0'' = \<lparr>queue = [], closed = False\<rparr>"
  by (simp_all add: example_pcap_def)

theorem NewNetSource_mode_by_Filename_witness:
  "Iface (NewMain\<lparr>Filename := ''capture.pcap''\<rparr>) = ''en0'' \<and>
   NewNetSource example_pcap (NewMain\<lparr>Filename := ''capture.pcap''\<rparr>) =
     (Inr \<lparr>num = 0, debug = False,
           packets = \<lparr>queue = [Some http_get_packet, Some udp_packet], closed = True\<rparr>\<rparr>,
      [CallOpenOffline ''capture.pcap'', CallSetBPFFilter '''', CallPackets]) \<and>
   NewNetSource example_pcap
     (NewMain\<lparr>Filename := ''capture.pcap'', Iface := ''no-such-interface'', Snaplen := 0,
        Promisc := True, Timeout := 0\<rparr>) =
     NewNetSource example_pcap (NewMain\<lparr>Filename := ''capture.pcap''\<rparr>) \<and>
   NewNetSource example_pcap NewMain =
     (Inr \<lparr>num = 0, debug = False, packets = \<lparr>queue = [], closed = False\<rparr>\<rparr>,
      [CallOpenLive ''en0'' 1500 False 1000000, CallSetBPFFilter '''', CallPackets])"
proof -
  let ?m = "NewMain\<lparr>Filename := ''capture.pcap''\<rparr>"
  have a: "Filename ?m \<noteq> ''''" "Filename ?m = ''capture.pcap''" "Iface ?m = ''en0''"
    "Filter ?m = ''''"
    by (simp_all add: NewMain_def)
  have b: "Filename NewMain = ''''" "Iface NewMain = ''en0''" "Snaplen NewMain = 1500"
    "Promisc NewMain = False" "Timeout NewMain = 1000000" "Filter NewMain = ''''"
    by (simp_all add: NewMain_def)
  note offline = NewNetSource_mode_by_Filename
    [where m = ?m and lib = example_pcap and i = "''no-such-interface''" and s = 0
      and p = True and t = 0]
  note live = NewNetSource_mode_by_Filename [where m = NewMain and lib = example_pcap]
  from offline a(1)
  have x: "NewNetSource example_pcap ?m =
        (case OpenOffline example_pcap (Filename ?m) of
           Inl err \<Rightarrow> (Inl (''open error: '' @ err), [CallOpenOffline (Filename ?m)])
         | Inr h \<Rightarrow>
             (case SetBPFFilter example_pcap h (Filter ?m) of
                Inl err \<Rightarrow>
                  (Inl (''error setting bpf filter: '' @ err),
                   [CallOpenOffline (Filename ?m), CallSetBPFFilter (Filter ?m)])
              | Inr h' \<Rightarrow>
                  (Inr \<lparr>num = 0, debug = False, packets = Packets example_pcap h'\<rparr>,
                   [CallOpenOffline (Filename ?m), CallSetBPFFilter (Filter ?m),
                    CallPackets])))"
    and y: "NewNetSource example_pcap
        (?m\<lparr>Iface := ''no-such-interface'', Snaplen := 0, Promisc := True, Timeout := 0\<rparr>) =
      NewNetSource example_pcap ?m"
    by blast+
  have x': "NewNetSource example_pcap ?m =
     (Inr \<lparr>num = 0, debug = False,
           packets = \<lparr>queue = [Some http_get_packet, Some udp_packet], closed = True\<rparr>\<rparr>,
      [CallOpenOffline ''capture.pcap'', CallSetBPFFilter '''', CallPackets])"
    unfolding x a(2) a(4) by (simp add: example_pcap_calls)
  from live b(1)
  have "NewNetSource example_pcap NewMain =
        (case OpenLive example_pcap (Iface NewMain) (Snaplen NewMain) (Promisc NewMain)
                (Timeout NewMain) of
           Inl err \<Rightarrow>
             (Inl (''open error: '' @ err),
              [CallOpenLive (Iface NewMain) (Snaplen NewMain) (Promisc NewMain)
                 (Timeout NewMain)])
         | Inr h \<Rightarrow>
             (case SetBPFFilter example_pcap h (Filter NewMain) of
                Inl err \<Rightarrow>
                  (Inl (''error setting bpf filter: '' @ err),
                   [CallOpenLive (Iface NewMain) (Snaplen NewMain) (Promisc NewMain)
                      (Timeout NewMain),
                    CallSetBPFFilter (Filter NewMain)])
              | Inr h' \<Rightarrow>
                  (Inr \<lparr>num = 0, debug = False, packets = Packets example_pcap h'\<rparr>,
                   [CallOpenLive (Iface NewMain) (Snaplen NewMain) (Promisc NewMain)
                      (Timeout NewMain),
                    CallSetBPFFilter (Filter NewMain), CallPackets])))"
    by blast
  then have z: "NewNetSource example_pcap NewMain =
     (Inr \<lparr>num = 0, debug = False, packets = \<lparr>queue = [], closed = False\<rparr>\<rparr>,
      [CallOpenLive ''en0'' 1500 False 1000000, CallSetBPFFilter '''', CallPackets])"
    unfolding b by (simp add: example_pcap_calls)
  show ?thesis
    unfolding y x' z by (simp only: a simp_thms)
qed

end
